theory Spec2Isabelle
  imports Main "HOL-Library.Word" "HOL-Library.Sublist"
begin

section \<open>Data model\<close>

text \<open>
  Go's \<open>int64\<close> is a 64-bit word read as two's complement: comparisons are the signed
  ones (\<open><s\<close>), and \<open>sint\<close> gives the number a \<open>%d\<close> prints.
\<close>

type_synonym int64 = "64 word"

text \<open>
  A \<open>time.Time\<close> without monotonic reading (what the datastore returns and what
  \<open>Sub\<close> compares once one side has none) is an instant on the wall clock, in
  nanoseconds since the Unix epoch.
\<close>

type_synonym Time = int

text \<open>The zero value of \<open>time.Time\<close>: January 1, year 1, 00:00:00 UTC.\<close>

definition zeroTime :: Time where
  "zeroTime = - 62135596800 * 1000000000"

text \<open>\<open>type Story struct\<close> of story.go.\<close>

record Story =
  ID :: int64
  URL :: string
  Title :: string
  Descendants :: int64
  Score :: int64
  MessageID :: int64
  LastSave :: Time
  Type :: string
  missingFieldsLoaded :: bool

text \<open>
  The constants \<open>ScoreThreshold\<close> and \<open>NumCommentsThreshold\<close> are declared in a file
  that is not among the sources; they are compared with \<open>int64\<close> fields, so they are
  \<open>int64\<close> values, taken as parameters.
\<close>

record config =
  ScoreThreshold :: int64
  NumCommentsThreshold :: int64

section \<open>The filter\<close>

text \<open>\<open>func (s *Story) ShouldIgnore() bool\<close>.\<close>

definition ShouldIgnore :: "config \<Rightarrow> Story \<Rightarrow> bool" where
  "ShouldIgnore c s \<longleftrightarrow>
     Type s \<noteq> ''story'' \<or>
     Score s <s ScoreThreshold c \<or>
     Descendants s <s NumCommentsThreshold c \<or>
     URL s = ''''"

section \<open>Formatting\<close>

text \<open>
  \<open>%d\<close> of \<open>fmt.Sprintf\<close> and \<open>strconv.FormatInt(i, 10)\<close>: the decimal digits of the
  signed value, most significant first, after a minus sign when it is negative.
\<close>

definition digits :: string where
  "digits = ''0123456789''"

fun decimal :: "nat \<Rightarrow> string" where
  "decimal n = (if n < 10 then [digits ! n] else decimal (n div 10) @ [digits ! (n mod 10)])"

declare decimal.simps [simp del]

definition FormatInt :: "int64 \<Rightarrow> string" where
  "FormatInt i =
     (if sint i < 0 then CHR ''-'' # decimal (nat (- sint i)) else decimal (nat (sint i)))"

text \<open>\<open>const Hot\<close>: the fire emoji U+1F525, four bytes in UTF-8 (a Go string is its bytes).\<close>

definition Hot :: string where
  "Hot = [CHR 0xF0, CHR 0x9F, CHR 0x94, CHR 0xA5]"

definition DefaultChatID :: string where
  "DefaultChatID = ''@yahnc''"

text \<open>\<open>func NewsURL(id int64) string\<close> of main.go.\<close>

definition NewsURL :: "int64 \<Rightarrow> string" where
  "NewsURL i = ''https://news.ycombinator.com/item?id='' @ FormatInt i"

section \<open>Messages of the channel\<close>

text \<open>
  The request and response structs. A record's fields are constants of the theory, so a
  field name that several structs share carries the struct's initial.
\<close>

record InlineKeyboardButton =
  Text :: string
  b_URL :: string

record InlineKeyboardMarkup =
  InlineKeyboard :: "InlineKeyboardButton list list"

record SendMessageRequest =
  s_ChatID :: string
  s_Text :: string
  s_ParseMode :: string
  s_ReplyMarkup :: InlineKeyboardMarkup

record Result =
  r_MessageID :: int64

record SendMessageResponse =
  s_OK :: bool
  Result :: Result

record EditMessageTextRequest =
  e_ChatID :: string
  e_MessageID :: int64
  e_Text :: string
  e_ParseMode :: string
  e_ReplyMarkup :: InlineKeyboardMarkup

record DeleteMessageRequest =
  d_ChatID :: string
  d_MessageID :: int64

record DeleteMessageResponse =
  OK :: bool
  ErrorCode :: int64
  Description :: string

text \<open>\<open>strings.Contains(s, substr)\<close>: \<open>substr\<close> starts at some position of \<open>s\<close>.\<close>

fun Contains :: "string \<Rightarrow> string \<Rightarrow> bool" where
  "Contains [] substr = (substr = [])"
| "Contains (c # s) substr = (prefix substr (c # s) \<or> Contains s substr)"

text \<open>\<open>func (r *DeleteMessageResponse) ShouldIgnoreError() bool\<close>.\<close>

definition ShouldIgnoreError :: "DeleteMessageResponse \<Rightarrow> bool" where
  "ShouldIgnoreError r \<longleftrightarrow>
     ErrorCode r = 400 \<and>
     (Contains (Description r) ''message to delete not found'' \<or>
      Contains (Description r) ''message can't be deleted'')"

text \<open>\<open>func (s *Story) GetReplyMarkup() InlineKeyboardMarkup\<close>.\<close>

definition GetReplyMarkup :: "Story \<Rightarrow> InlineKeyboardMarkup" where
  "GetReplyMarkup s =
     (let scoreSuffix = (if 100 <s Score s then '' '' @ Hot else '''');
          commentSuffix = (if 100 <s Descendants s then '' '' @ Hot else '''')
      in \<lparr>InlineKeyboard =
            [[\<lparr>Text = ''Score: '' @ FormatInt (Score s) @ ''+'' @ scoreSuffix,
               b_URL = URL s\<rparr>,
              \<lparr>Text = ''Comments: '' @ FormatInt (Descendants s) @ ''+'' @ commentSuffix,
               b_URL = NewsURL (ID s)\<rparr>]]\<rparr>)"

definition ToSendMessageRequest :: "Story \<Rightarrow> SendMessageRequest" where
  "ToSendMessageRequest s =
     \<lparr>s_ChatID = DefaultChatID,
      s_Text = ''<b>'' @ Title s @ ''</b>  '' @ URL s,
      s_ParseMode = ''HTML'',
      s_ReplyMarkup = GetReplyMarkup s\<rparr>"

definition ToEditMessageTextRequest :: "Story \<Rightarrow> EditMessageTextRequest" where
  "ToEditMessageTextRequest s =
     \<lparr>e_ChatID = DefaultChatID,
      e_MessageID = MessageID s,
      e_Text = ''<b>'' @ Title s @ ''</b>  '' @ URL s,
      e_ParseMode = ''HTML'',
      e_ReplyMarkup = GetReplyMarkup s\<rparr>"

definition ToDeleteMessageRequest :: "Story \<Rightarrow> DeleteMessageRequest" where
  "ToDeleteMessageRequest s = \<lparr>d_ChatID = DefaultChatID, d_MessageID = MessageID s\<rparr>"

section \<open>Errors, the datastore and the outside world\<close>

text \<open>
  Error values. \<open>ErrIgnoredItem\<close> is the package's sentinel (\<open>errors.New("item ignored")\<close>);
  \<open>errors.WithStack\<close> of github.com/pkg/errors wraps a non-nil error into a new value
  that holds it, and \<open>fmt.Errorf\<close> makes a new error from what it formats. Go's \<open>==\<close> on
  errors compares the values themselves, so a wrapped sentinel is not the sentinel: that
  is the equality of this datatype.
\<close>

datatype error =
    ErrIgnoredItem
  | WithStack error
  | Errorf_story_already_posted Story
  | Errorf_response DeleteMessageResponse
  | HTTPError
  | JSONError
  | DatastoreError

text \<open>
  What \<open>Save\<close> writes for a story: the three properties \<open>MessageID\<close>, \<open>ID\<close> and
  \<open>LastSave\<close>. An entity is stored under the key \<open>GetKey(ctx, id)\<close>, kind "Story" with
  integer id \<open>id\<close> under the fixed root.
\<close>

record Entity =
  p_MessageID :: int64
  p_ID :: int64
  p_LastSave :: Time

datatype Key = GetKey int64

fun IntID :: "Key \<Rightarrow> int64" where
  "IntID (GetKey i) = i"

type_synonym datastore = "Key \<rightharpoonup> Entity"

text \<open>\<open>func (s *Story) Save()\<close>, with the reading of \<open>time.Now()\<close> as an argument.\<close>

definition Save :: "Story \<Rightarrow> Time \<Rightarrow> Entity" where
  "Save s t = \<lparr>p_MessageID = MessageID s, p_ID = ID s, p_LastSave = t\<rparr>"

text \<open>
  An HTTP exchange ends in one of three ways: the client returns an error, the body does
  not decode, or the body decodes to a value.
\<close>

datatype 'a reply = TransportError | DecodeError | Decoded 'a

text \<open>
  The body of the item API, as \<open>json.Decode\<close> into a \<open>Story\<close> reads it: each of the six
  tagged fields is present or absent (\<open>MessageID\<close> and \<open>LastSave\<close> are tagged \<open>json:"-"\<close>
  and never read); a field that is absent leaves the struct's field as it was.
\<close>

record item_json =
  j_id :: "int64 option"
  j_url :: "string option"
  j_title :: "string option"
  j_descendants :: "int64 option"
  j_score :: "int64 option"
  j_type :: "string option"

definition Decode :: "item_json \<Rightarrow> Story \<Rightarrow> Story" where
  "Decode j s =
     s\<lparr>ID := (case j_id j of None \<Rightarrow> ID s | Some v \<Rightarrow> v),
       URL := (case j_url j of None \<Rightarrow> URL s | Some v \<Rightarrow> v),
       Title := (case j_title j of None \<Rightarrow> Title s | Some v \<Rightarrow> v),
       Descendants := (case j_descendants j of None \<Rightarrow> Descendants s | Some v \<Rightarrow> v),
       Score := (case j_score j of None \<Rightarrow> Score s | Some v \<Rightarrow> v),
       Type := (case j_type j of None \<Rightarrow> Type s | Some v \<Rightarrow> v)\<rparr>"

text \<open>
  What the outside world answers during one task: the item API, the three methods of the
  channel (the body of the edit is discarded unread, so only the client's error counts),
  whether each datastore call fails, and the clock.
\<close>

record env =
  item_reply :: "item_json reply"
  send_reply :: "SendMessageResponse reply"
  edit_error :: bool
  delete_reply :: "DeleteMessageResponse reply"
  query_fails :: bool
  put_fails :: bool
  delete_fails :: bool
  now :: Time

text \<open>What a task does to the outside, in order.\<close>

datatype event =
    GetItem int64
  | PostSendMessage SendMessageRequest
  | PostEditMessageText EditMessageTextRequest
  | PostDeleteMessage DeleteMessageRequest
  | Query Key
  | Put Key Entity
  | Delete Key
  | LogInfof
  | LogWarningf
  | LogErrorf error

fun channel_call :: "event \<Rightarrow> bool" where
  "channel_call (PostSendMessage _) = True"
| "channel_call (PostEditMessageText _) = True"
| "channel_call (PostDeleteMessage _) = True"
| "channel_call _ = False"

fun store_write :: "event \<Rightarrow> bool" where
  "store_write (Put _ _) = True"
| "store_write (Delete _) = True"
| "store_write _ = False"

fun logged_error :: "event \<Rightarrow> bool" where
  "logged_error (LogErrorf _) = True"
| "logged_error _ = False"

section \<open>The item dispatcher\<close>

text \<open>
  Each method returns its error (\<open>None\<close> is \<open>nil\<close>), the story as the method left it, and
  the events. \<open>json.Marshal\<close> of the request structs (strings and integers) has no error.
\<close>

definition FillMissingFields :: "env \<Rightarrow> Story \<Rightarrow> error option \<times> Story \<times> event list" where
  "FillMissingFields w s =
     (case item_reply w of
        TransportError \<Rightarrow> (Some (WithStack HTTPError), s, [GetItem (ID s)])
      | DecodeError \<Rightarrow> (Some (WithStack JSONError), s, [GetItem (ID s)])
      | Decoded j \<Rightarrow> (None, (Decode j s)\<lparr>missingFieldsLoaded := True\<rparr>, [GetItem (ID s)]))"

text \<open>
  The opening of \<open>EditMessage\<close> and of \<open>SendMessage\<close>: fill the story unless it is
  filled already, and wrap the error once more on the way out.
\<close>

definition fill_if_missing :: "env \<Rightarrow> Story \<Rightarrow> error option \<times> Story \<times> event list" where
  "fill_if_missing w s =
     (if \<not> missingFieldsLoaded s
      then (case FillMissingFields w s of
              (Some err, s1, t) \<Rightarrow> (Some (WithStack err), s1, t)
            | (None, s1, t) \<Rightarrow> (None, s1, t))
      else (None, s, []))"

text \<open>
  The story of a task after \<open>FillMissingFields\<close> has decoded the body \<open>j\<close> into it.
\<close>

definition enriched :: "item_json \<Rightarrow> Story \<Rightarrow> Story" where
  "enriched j s = (Decode j s)\<lparr>missingFieldsLoaded := True\<rparr>"

text \<open>\<open>func (s *Story) EditMessage(ctx) error\<close>.\<close>

definition EditMessage :: "config \<Rightarrow> env \<Rightarrow> Story \<Rightarrow> error option \<times> Story \<times> event list" where
  "EditMessage c w s0 =
     (case fill_if_missing w s0 of
        (Some err, s, t) \<Rightarrow> (Some err, s, t)
      | (None, s, t) \<Rightarrow>
          if ShouldIgnore c s then (Some (WithStack ErrIgnoredItem), s, t)
          else if edit_error w
            then (Some (WithStack HTTPError), s, t @ [PostEditMessageText (ToEditMessageTextRequest s)])
            else (None, s, t @ [PostEditMessageText (ToEditMessageTextRequest s)]))"

text \<open>
  \<open>func (s *Story) InDatastore(ctx) bool\<close>: a keys-only query for the story's key. The
  error of \<open>GetAll\<close> is discarded, and a query that fails returns no key. Its events
  are the log line and the query.
\<close>

definition GetAll_keys :: "env \<Rightarrow> datastore \<Rightarrow> Key \<Rightarrow> Key list" where
  "GetAll_keys w ds k = (if \<not> query_fails w \<and> ds k \<noteq> None then [k] else [])"

definition InDatastore :: "env \<Rightarrow> datastore \<Rightarrow> Story \<Rightarrow> bool" where
  "InDatastore w ds s \<longleftrightarrow> length (GetAll_keys w ds (GetKey (ID s))) \<noteq> 0"

text \<open>\<open>func (s *Story) SendMessage(ctx) error\<close>.\<close>

definition SendMessage ::
  "config \<Rightarrow> env \<Rightarrow> datastore \<Rightarrow> Story \<Rightarrow> error option \<times> Story \<times> event list" where
  "SendMessage c w ds s0 =
     (case fill_if_missing w s0 of
        (Some err, s, t) \<Rightarrow> (Some err, s, t)
      | (None, s, t) \<Rightarrow>
          if ShouldIgnore c s then (Some ErrIgnoredItem, s, t)
          else if InDatastore w ds s
            then (Some (WithStack (Errorf_story_already_posted s)), s,
                  t @ [LogInfof, Query (GetKey (ID s))])
          else
            (let t1 = t @ [LogInfof, Query (GetKey (ID s)),
                           PostSendMessage (ToSendMessageRequest s)]
             in case send_reply w of
                  TransportError \<Rightarrow> (Some (WithStack HTTPError), s, t1)
                | DecodeError \<Rightarrow> (Some (WithStack JSONError), s, t1)
                | Decoded response \<Rightarrow>
                    (None, s\<lparr>MessageID := r_MessageID (Result response)\<rparr>, t1)))"

text \<open>\<open>func (s *Story) DeleteMessage(ctx) error\<close>; it returns the datastore as it leaves it.\<close>

definition DeleteMessage ::
  "env \<Rightarrow> datastore \<Rightarrow> Story \<Rightarrow> error option \<times> datastore \<times> event list" where
  "DeleteMessage w ds s =
     (let t = [PostDeleteMessage (ToDeleteMessageRequest s)]
      in case delete_reply w of
           TransportError \<Rightarrow> (Some (WithStack HTTPError), ds, t)
         | DecodeError \<Rightarrow> (Some (WithStack JSONError), ds, t)
         | Decoded response \<Rightarrow>
             if \<not> OK response \<and> \<not> ShouldIgnoreError response
             then (Some (WithStack (Errorf_response response)), ds, t)
             else
               (let t1 = t @ (if \<not> OK response then [LogWarningf] else []) @
                           [Delete (GetKey (ID s))]
                in if delete_fails w then (Some (WithStack DatastoreError), ds, t1)
                   else (None, ds(GetKey (ID s) := None), t1 @ [LogInfof])))"

section \<open>The tasks\<close>

text \<open>
  The zero value of \<open>Story\<close>, which the composite literals \<open>Story{ID: itemID}\<close> and
  \<open>Story{ID: itemID, MessageID: messageID}\<close> fill in.
\<close>

definition zeroStory :: Story where
  "zeroStory =
     \<lparr>ID = 0, URL = '''', Title = '''', Descendants = 0, Score = 0, MessageID = 0,
      LastSave = zeroTime, Type = '''', missingFieldsLoaded = False\<rparr>"

text \<open>
  \<open>datastore.Put(ctx, key, &story)\<close>: the entity of \<open>story.Save()\<close> under \<open>key\<close>, unless
  the call fails. The task logs the failure and goes on to its last log line.
\<close>

definition Put_story :: "env \<Rightarrow> datastore \<Rightarrow> Key \<Rightarrow> Story \<Rightarrow> datastore \<times> event list" where
  "Put_story w ds k s =
     (if put_fails w then (ds, [Put k (Save s (now w)), LogErrorf DatastoreError])
      else (ds(k \<mapsto> Save s (now w)), [Put k (Save s (now w))]))"

text \<open>The function of \<open>editMessageFunc\<close>.\<close>

definition editMessageFunc ::
  "config \<Rightarrow> env \<Rightarrow> datastore \<Rightarrow> int64 \<Rightarrow> int64 \<Rightarrow> datastore \<times> event list" where
  "editMessageFunc c w ds itemID messageID =
     (case EditMessage c w (zeroStory\<lparr>ID := itemID, MessageID := messageID\<rparr>) of
        (Some err, story, t) \<Rightarrow>
          (ds, t @ (if err \<noteq> ErrIgnoredItem then [LogErrorf err] else []))
      | (None, story, t) \<Rightarrow>
          (case Put_story w ds (GetKey itemID) story of
             (ds1, t1) \<Rightarrow> (ds1, t @ t1 @ [LogInfof])))"

text \<open>The function of \<open>sendMessageFunc\<close>.\<close>

definition sendMessageFunc ::
  "config \<Rightarrow> env \<Rightarrow> datastore \<Rightarrow> int64 \<Rightarrow> datastore \<times> event list" where
  "sendMessageFunc c w ds itemID =
     (case SendMessage c w ds (zeroStory\<lparr>ID := itemID\<rparr>) of
        (Some err, story, t) \<Rightarrow>
          (ds, t @ (if err \<noteq> ErrIgnoredItem then [LogErrorf err] else []))
      | (None, story, t) \<Rightarrow>
          (case Put_story w ds (GetKey itemID) story of
             (ds1, t1) \<Rightarrow> (ds1, t @ t1 @ [LogInfof])))"

text \<open>The function of \<open>deleteMessageFunc\<close>.\<close>

definition deleteMessageFunc ::
  "env \<Rightarrow> datastore \<Rightarrow> int64 \<Rightarrow> int64 \<Rightarrow> datastore \<times> event list" where
  "deleteMessageFunc w ds itemID messageID =
     (case DeleteMessage w ds (zeroStory\<lparr>ID := itemID, MessageID := messageID\<rparr>) of
        (Some err, ds1, t) \<Rightarrow> (ds1, t @ [LogErrorf err])
      | (None, ds1, t) \<Rightarrow> (ds1, t))"

section \<open>The poll cycle\<close>

definition BatchSize :: nat where
  "BatchSize = 30"

text \<open>
  What the two handlers do for one item or record: call one of the three delayed functions
  (each call in a goroutine of its own; the list keeps the order in which the loop starts
  them), or write the error line of the \<open>default\<close> case.
\<close>

datatype action =
    editMessageFunc_Call int64 int64
  | sendMessageFunc_Call int64
  | deleteMessageFunc_Call int64 int64
  | log_Errorf

text \<open>
  \<open>datastore.GetMulti\<close> returns \<open>nil\<close>, an \<open>appengine.MultiError\<close> with one entry per key
  (\<open>nil\<close>, \<open>datastore.ErrNoSuchEntity\<close> or another error), or an error of another type.
  It loads the entities it finds into the elements of \<open>dst\<close>, whose length it cannot
  change: \<open>loaded i\<close> is the entity it loaded into element \<open>i\<close>, if any. A poll holds
  what the outside answers: the feed, and the datastore's answer to the lookup
  (\<open>GetMulti_err\<close>, \<open>loaded\<close>).
\<close>

datatype entity_error = no_error | ErrNoSuchEntity | other_error

datatype GetMulti_error = GetMulti_nil | MultiError "entity_error list" | unknown_error

record poll =
  topStories :: "int64 list option"
  GetMulti_err :: GetMulti_error
  loaded :: "nat \<Rightarrow> Entity option"

text \<open>\<open>datastore.LoadStruct\<close> on the three saved properties.\<close>

definition Load :: "Entity \<Rightarrow> Story \<Rightarrow> Story" where
  "Load e s = s\<lparr>MessageID := p_MessageID e, ID := p_ID e, LastSave := p_LastSave e\<rparr>"

text \<open>
  \<open>savedStories := make([]Story, BatchSize, BatchSize)\<close> after \<open>GetMulti\<close>.
\<close>

definition savedStories :: "poll \<Rightarrow> Story list" where
  "savedStories p =
     map (\<lambda>i. case loaded p i of None \<Rightarrow> zeroStory | Some e \<Rightarrow> Load e zeroStory) [0..<BatchSize]"

text \<open>
  \<open>datastore.GetMulti(ctx, keys, dst)\<close> of the App Engine library: before it asks the
  datastore, it compares the two lengths and returns a plain error ("key and dst slices
  have different length"), which is not a \<open>MultiError\<close>, when they differ. The handler
  always passes the slice of \<open>BatchSize\<close> stories as \<open>dst\<close>.
\<close>

definition GetMulti :: "poll \<Rightarrow> Key list \<Rightarrow> Story list \<Rightarrow> GetMulti_error" where
  "GetMulti p keys dst = (if length keys \<noteq> length dst then unknown_error else GetMulti_err p)"

text \<open>
  The two loops. Each returns what it did and whether it stopped in a panic: indexing
  \<open>keys\<close> or \<open>savedStories\<close> out of range panics before the goroutine starts, and ends
  the handler.
\<close>

fun edit_all :: "Story list \<Rightarrow> nat \<Rightarrow> Key list \<Rightarrow> action list \<times> bool" where
  "edit_all saved i [] = ([], False)"
| "edit_all saved i (key # rest) =
     (if i < length saved
      then (case edit_all saved (Suc i) rest of
              (as, panicked) \<Rightarrow>
                (editMessageFunc_Call (IntID key) (MessageID (saved ! i)) # as, panicked))
      else ([], True))"

fun per_key :: "Key list \<Rightarrow> Story list \<Rightarrow> nat \<Rightarrow> entity_error list \<Rightarrow> action list \<times> bool" where
  "per_key keys saved i [] = ([], False)"
| "per_key keys saved i (err # rest) =
     (case err of
        no_error \<Rightarrow>
          if i < length keys \<and> i < length saved
          then (case per_key keys saved (Suc i) rest of
                  (as, panicked) \<Rightarrow>
                    (editMessageFunc_Call (IntID (keys ! i)) (MessageID (saved ! i)) # as,
                     panicked))
          else ([], True)
      | ErrNoSuchEntity \<Rightarrow>
          if i < length keys
          then (case per_key keys saved (Suc i) rest of
                  (as, panicked) \<Rightarrow> (sendMessageFunc_Call (IntID (keys ! i)) # as, panicked))
          else ([], True)
      | other_error \<Rightarrow>
          (case per_key keys saved (Suc i) rest of
             (as, panicked) \<Rightarrow> (log_Errorf # as, panicked)))"

text \<open>
  \<open>func handler(w, r)\<close>: the branch it takes, with what the branch's loop did.
\<close>

datatype handler_result =
    fetch_failed
  | no_unknown_news "action list \<times> bool"
  | unknown_GetMulti_error
  | from_MultiError "action list \<times> bool"

definition handler :: "poll \<Rightarrow> handler_result" where
  "handler p =
     (case topStories p of
        None \<Rightarrow> fetch_failed
      | Some stories \<Rightarrow>
          (let keys = map GetKey stories
           in case GetMulti p keys (savedStories p) of
                GetMulti_nil \<Rightarrow> no_unknown_news (edit_all (savedStories p) 0 keys)
              | unknown_error \<Rightarrow> unknown_GetMulti_error
              | MultiError multiErr \<Rightarrow>
                  from_MultiError (per_key keys (savedStories p) 0 multiErr)))"

text \<open>
  The classification of a cycle: the per-item outcomes, when the handler reached one of
  its two loops and the loop ran to its end.
\<close>

fun classification :: "handler_result \<Rightarrow> action list option" where
  "classification (no_unknown_news (as, panicked)) = (if panicked then None else Some as)"
| "classification (from_MultiError (as, panicked)) = (if panicked then None else Some as)"
| "classification fetch_failed = None"
| "classification unknown_GetMulti_error = None"

section \<open>The retention sweep\<close>

text \<open>
  \<open>time.Duration\<close> is an \<open>int64\<close> of nanoseconds; \<open>Time.Sub\<close> returns the difference, or
  the largest (smallest) duration when the difference is out of range.
\<close>

definition maxDuration :: int where
  "maxDuration = 2 ^ 63 - 1"

definition minDuration :: int where
  "minDuration = - (2 ^ 63)"

definition Sub :: "Time \<Rightarrow> Time \<Rightarrow> int" where
  "Sub t u =
     (if t - u > maxDuration then maxDuration
      else if t - u < minDuration then minDuration
      else t - u)"

definition Hour :: int where
  "Hour = 3600 * 1000000000"

text \<open>
  \<open>func cleanUpHandler(w, r)\<close>, from the result of \<open>GetAll\<close> (\<open>None\<close> when it fails) and
  the reading of \<open>time.Now()\<close>.
\<close>

fun sweep :: "Time \<Rightarrow> Story list \<Rightarrow> action list" where
  "sweep t [] = []"
| "sweep t (story # rest) =
     (if Sub t (LastSave story) > 24 * Hour
      then deleteMessageFunc_Call (ID story) (MessageID story) # sweep t rest
      else sweep t rest)"

definition cleanUpHandler :: "Story list option \<Rightarrow> Time \<Rightarrow> action list option" where
  "cleanUpHandler allStories t =
     (case allStories of None \<Rightarrow> None | Some stories \<Rightarrow> Some (sweep t stories))"

section \<open>The set of identifiers\<close>

text \<open>
  \<open>type IntSet map[int64]struct{}\<close>. A \<open>range\<close> over a map visits each key once, in an
  order the runtime chooses: the loops below take that order as a list.

  \<open>Max\<close> and \<open>Min\<close> keep a pointer \<open>ret\<close> to the loop variable \<open>i\<close>, so what they return
  depends on where \<open>i\<close> lives. The memory is a function from addresses to values, \<open>ret\<close>
  is \<open>None\<close> (nil) or an address, and \<open>var k\<close> is the address of \<open>i\<close> in iteration \<open>k\<close>.
  The package is written for the first App Engine runtime (package \<open>bots\<close> registering its
  handlers in \<open>init\<close>), that is for Go before 1.22, where a loop has one variable for all
  its iterations (\<open>one_variable\<close>); from Go 1.22 on each iteration has its own
  (\<open>variable_per_iteration\<close>).
\<close>

datatype panic = nil_pointer_dereference

type_synonym addr = nat

type_synonym memory = "addr \<Rightarrow> int64"

definition one_variable :: "nat \<Rightarrow> addr" where
  "one_variable k = 0"

definition variable_per_iteration :: "nat \<Rightarrow> addr" where
  "variable_per_iteration k = k"

fun Max_loop ::
  "(nat \<Rightarrow> addr) \<Rightarrow> nat \<Rightarrow> int64 list \<Rightarrow> memory \<Rightarrow> addr option \<Rightarrow> memory \<times> addr option" where
  "Max_loop var k [] m ret = (m, ret)"
| "Max_loop var k (x # rest) m ret =
     (let i = var k; m1 = m(i := x)
      in Max_loop var (Suc k) rest m1
           (case ret of
              None \<Rightarrow> Some i
            | Some r \<Rightarrow> if m1 r <s m1 i then Some i else Some r))"

fun Min_loop ::
  "(nat \<Rightarrow> addr) \<Rightarrow> nat \<Rightarrow> int64 list \<Rightarrow> memory \<Rightarrow> addr option \<Rightarrow> memory \<times> addr option" where
  "Min_loop var k [] m ret = (m, ret)"
| "Min_loop var k (x # rest) m ret =
     (let i = var k; m1 = m(i := x)
      in Min_loop var (Suc k) rest m1
           (case ret of
              None \<Rightarrow> Some i
            | Some r \<Rightarrow> if m1 i <s m1 r then Some i else Some r))"

text \<open>\<open>return *ret\<close>.\<close>

fun deref :: "memory \<times> addr option \<Rightarrow> panic + int64" where
  "deref (m, None) = Inl nil_pointer_dereference"
| "deref (m, Some r) = Inr (m r)"

definition Max_in :: "(nat \<Rightarrow> addr) \<Rightarrow> int64 list \<Rightarrow> panic + int64" where
  "Max_in var order = deref (Max_loop var 0 order (\<lambda>a. 0) None)"

definition Min_in :: "(nat \<Rightarrow> addr) \<Rightarrow> int64 list \<Rightarrow> panic + int64" where
  "Min_in var order = deref (Min_loop var 0 order (\<lambda>a. 0) None)"

text \<open>\<open>func (set IntSet) Max() int64\<close> and \<open>Min\<close>, as the package's Go runs them.\<close>

definition Max_IntSet :: "int64 list \<Rightarrow> panic + int64" where
  "Max_IntSet order = Max_in one_variable order"

definition Min_IntSet :: "int64 list \<Rightarrow> panic + int64" where
  "Min_IntSet order = Min_in one_variable order"

section \<open>Example inputs\<close>

text \<open>
  Concrete inputs on which the theorems below are run: thresholds, the body of the item
  API for a story that passes the filter and for a comment, a world in which every call
  succeeds, and the entity of a story posted as message 7.
\<close>

definition example_config :: config where
  "example_config = \<lparr>ScoreThreshold = 50, NumCommentsThreshold = 5\<rparr>"

definition example_item :: item_json where
  "example_item =
     \<lparr>j_id = Some 8863, j_url = Some ''http://a.io'', j_title = Some ''Dropbox'',
      j_descendants = Some 50, j_score = Some 150, j_type = Some ''story''\<rparr>"

definition example_comment :: item_json where
  "example_comment =
     \<lparr>j_id = Some 8863, j_url = None, j_title = None,
      j_descendants = None, j_score = None, j_type = Some ''comment''\<rparr>"

definition example_world :: env where
  "example_world =
     \<lparr>item_reply = Decoded example_item,
      send_reply = Decoded \<lparr>s_OK = True, Result = \<lparr>r_MessageID = 7\<rparr>\<rparr>,
      edit_error = False,
      delete_reply = Decoded \<lparr>OK = True, ErrorCode = 0, Description = ''''\<rparr>,
      query_fails = False, put_fails = False, delete_fails = False,
      now = 1000\<rparr>"

definition example_entity :: Entity where
  "example_entity = \<lparr>p_MessageID = 7, p_ID = 8863, p_LastSave = 0\<rparr>"

text \<open>
  A feed of \<open>BatchSize\<close> identifiers, per-key errors for it (the first item found, the
  third in error, no entity for the others), and a lookup that finds every item, item
  \<open>i\<close> of the feed posted as message \<open>100 + i\<close>.
\<close>

definition example_feed :: "int64 list" where
  "example_feed =
     [8863, 8864, 8865, 8866, 8867, 8868, 8869, 8870, 8871, 8872, 8873, 8874, 8875,
      8876, 8877, 8878, 8879, 8880, 8881, 8882, 8883, 8884, 8885, 8886, 8887, 8888,
      8889, 8890, 8891, 8892]"

definition example_errors :: "entity_error list" where
  "example_errors =
     [no_error, ErrNoSuchEntity, other_error, ErrNoSuchEntity, ErrNoSuchEntity,
      ErrNoSuchEntity, ErrNoSuchEntity, ErrNoSuchEntity, ErrNoSuchEntity,
      ErrNoSuchEntity, ErrNoSuchEntity, ErrNoSuchEntity, ErrNoSuchEntity,
      ErrNoSuchEntity, ErrNoSuchEntity, ErrNoSuchEntity, ErrNoSuchEntity,
      ErrNoSuchEntity, ErrNoSuchEntity, ErrNoSuchEntity, ErrNoSuchEntity,
      ErrNoSuchEntity, ErrNoSuchEntity, ErrNoSuchEntity, ErrNoSuchEntity,
      ErrNoSuchEntity, ErrNoSuchEntity, ErrNoSuchEntity, ErrNoSuchEntity,
      ErrNoSuchEntity]"

definition example_loaded :: "nat \<Rightarrow> Entity option" where
  "example_loaded i =
     (if i < 30
      then Some \<lparr>p_MessageID = 100 + word_of_nat i, p_ID = 8863 + word_of_nat i, p_LastSave = 0\<rparr>
      else None)"

section \<open>Properties of the filter\<close>

text \<open>
  C1. For every story, \<open>ShouldIgnore\<close> returns true if and only if the story's type is not
  "story", or its score (as a signed number) is below the score threshold, or its comment
  count is below the comment threshold, or its URL is the empty string; otherwise it
  returns false.
\<close>

theorem ShouldIgnore_iff:
  "ShouldIgnore c s \<longleftrightarrow>
     (Type s \<noteq> ''story'' \<or> sint (Score s) < sint (ScoreThreshold c) \<or>
      sint (Descendants s) < sint (NumCommentsThreshold c) \<or> length (URL s) = 0)"
  by (simp add: ShouldIgnore_def word_sless_alt)

theorem ShouldIgnore_iff_witness:
  "\<not> ShouldIgnore \<lparr>ScoreThreshold = 50, NumCommentsThreshold = 5\<rparr>
        (zeroStory\<lparr>URL := ''https://example.com'', Descendants := 50, Score := 150,
                    Type := ''story''\<rparr>) \<and>
   ShouldIgnore \<lparr>ScoreThreshold = 50, NumCommentsThreshold = 5\<rparr>
        (zeroStory\<lparr>URL := ''https://example.com'', Descendants := 50, Score := 49,
                    Type := ''story''\<rparr>)"
  using ShouldIgnore_iff [of "\<lparr>ScoreThreshold = 50, NumCommentsThreshold = 5\<rparr>"
        "zeroStory\<lparr>URL := ''https://example.com'', Descendants := 50, Score := 150,
                    Type := ''story''\<rparr>"]
      ShouldIgnore_iff [of "\<lparr>ScoreThreshold = 50, NumCommentsThreshold = 5\<rparr>"
        "zeroStory\<lparr>URL := ''https://example.com'', Descendants := 50, Score := 49,
                    Type := ''story''\<rparr>"]
  by (simp add: zeroStory_def)

section \<open>Properties of the reply markup\<close>

text \<open>
  C2, as the claim states it, fails: the format strings are \<open>"Score: %d+%s"\<close> and
  \<open>"Comments: %d+%s"\<close>, so a plus sign follows the number. For score 150 and 50 comments
  the texts are not "Score: 150 (hot marker)" and "Comments: 50".
\<close>

theorem GetReplyMarkup_texts_counterexample:
  "map Text (concat (InlineKeyboard (GetReplyMarkup (zeroStory\<lparr>Descendants := 50, Score := 150\<rparr>))))
     \<noteq> [''Score: 150 '' @ Hot, ''Comments: 50'']"
  by (simp add: GetReplyMarkup_def zeroStory_def FormatInt_def decimal.simps digits_def)

text \<open>
  C2, amended. For every story, the reply markup is one row of exactly two buttons: a score
  button whose text is "Score: " followed by the score in decimal and a plus sign, with the
  hot marker (a space and the emoji) appended exactly when the score is above 100, linking
  to the story URL; and a comments button whose text is "Comments: " followed by the count
  and a plus sign, with the hot marker appended exactly when the count is above 100, linking
  to the feed permalink of the story.
\<close>

theorem GetReplyMarkup_buttons:
  "InlineKeyboard (GetReplyMarkup s) =
     [[\<lparr>Text = ''Score: '' @ FormatInt (Score s) @ ''+'' @
                (if 100 < sint (Score s) then '' '' @ Hot else []),
        b_URL = URL s\<rparr>,
       \<lparr>Text = ''Comments: '' @ FormatInt (Descendants s) @ ''+'' @
                (if 100 < sint (Descendants s) then '' '' @ Hot else []),
        b_URL = ''https://news.ycombinator.com/item?id='' @ FormatInt (ID s)\<rparr>]]"
  by (simp add: GetReplyMarkup_def NewsURL_def word_sless_alt)

text \<open>For score 150 and 50 comments the texts are "Score: 150+ (hot marker)" and "Comments: 50+".\<close>

theorem GetReplyMarkup_buttons_witness:
  "InlineKeyboard (GetReplyMarkup (zeroStory\<lparr>ID := 8863, URL := ''http://a.io'', Descendants := 50,
                                              Score := 150\<rparr>)) =
     [[\<lparr>Text = ''Score: 150+ '' @ [CHR 0xF0, CHR 0x9F, CHR 0x94, CHR 0xA5], b_URL = ''http://a.io''\<rparr>,
       \<lparr>Text = ''Comments: 50+'', b_URL = ''https://news.ycombinator.com/item?id=8863''\<rparr>]]"
  using GetReplyMarkup_buttons [of "zeroStory\<lparr>ID := 8863, URL := ''http://a.io'', Descendants := 50,
                                              Score := 150\<rparr>"]
  by (simp add: zeroStory_def FormatInt_def decimal.simps digits_def Hot_def)

section \<open>Properties of the delete task\<close>

text \<open>\<open>Contains\<close> is the sublist relation: the description has the pattern inside it.\<close>

lemma Contains_sublist: "Contains s substr \<longleftrightarrow> sublist substr s"
  by (induction s) (auto simp: sublist_Cons_right)

lemma ShouldIgnoreError_iff:
  "ShouldIgnoreError r \<longleftrightarrow>
     ErrorCode r = 400 \<and>
     (sublist ''message to delete not found'' (Description r) \<or>
      sublist ''message can't be deleted'' (Description r))"
  by (simp add: ShouldIgnoreError_def Contains_sublist)

text \<open>
  C5, as the claim states it, fails where the datastore's own delete fails: after the
  ignorable response to the message of story 8863, the task logs the datastore's error and
  the record stays.
\<close>

theorem deleteMessageFunc_purge_counterexample:
  "fst (deleteMessageFunc
     (example_world\<lparr>delete_reply := Decoded \<lparr>OK = False, ErrorCode = 400,
                        Description = ''Bad Request: message to delete not found''\<rparr>,
                    delete_fails := True\<rparr>)
     [GetKey 8863 \<mapsto> example_entity] 8863 7) (GetKey 8863) = Some example_entity \<and>
   list_ex logged_error (snd (deleteMessageFunc
     (example_world\<lparr>delete_reply := Decoded \<lparr>OK = False, ErrorCode = 400,
                        Description = ''Bad Request: message to delete not found''\<rparr>,
                    delete_fails := True\<rparr>)
     [GetKey 8863 \<mapsto> example_entity] 8863 7))"
  by (simp add: deleteMessageFunc_def DeleteMessage_def ShouldIgnoreError_def example_world_def)

text \<open>
  C5, amended. For every Delete dispatch, a channel response with \<open>ok\<close> false, error
  code 400 and a description containing "message to delete not found" or "message can't be
  deleted" is treated as purge success: the task goes on to delete the record, and when
  that datastore call succeeds the record is removed and no error is logged (when it fails,
  its error is logged and the record stays, as after a response with \<open>ok\<close> true). Any
  other response with \<open>ok\<close> false is fatal for the action: no datastore call is made,
  the record is retained and the error is logged.
\<close>

theorem deleteMessageFunc_failure_response:
  assumes "delete_reply w = Decoded r" and "\<not> OK r"
  shows "if ErrorCode r = 400 \<and>
            (sublist ''message to delete not found'' (Description r) \<or>
             sublist ''message can't be deleted'' (Description r))
         then (if delete_fails w
               then deleteMessageFunc w ds itemID messageID =
                    (ds, [PostDeleteMessage \<lparr>d_ChatID = DefaultChatID, d_MessageID = messageID\<rparr>,
                          LogWarningf, Delete (GetKey itemID), LogErrorf (WithStack DatastoreError)])
               else deleteMessageFunc w ds itemID messageID =
                    (ds(GetKey itemID := None),
                     [PostDeleteMessage \<lparr>d_ChatID = DefaultChatID, d_MessageID = messageID\<rparr>,
                      LogWarningf, Delete (GetKey itemID), LogInfof]))
         else deleteMessageFunc w ds itemID messageID =
                (ds, [PostDeleteMessage \<lparr>d_ChatID = DefaultChatID, d_MessageID = messageID\<rparr>,
                      LogErrorf (WithStack (Errorf_response r))])"
  using assms
  by (simp add: deleteMessageFunc_def DeleteMessage_def ShouldIgnoreError_iff
      ToDeleteMessageRequest_def zeroStory_def)

text \<open>
  The two responses of the specification: 400 "message to delete not found" removes the
  record of story 8863; 403 "chat not found" keeps it and logs the error.
\<close>

theorem deleteMessageFunc_failure_response_witness:
  "deleteMessageFunc
     (example_world\<lparr>delete_reply := Decoded \<lparr>OK = False, ErrorCode = 400,
                        Description = ''Bad Request: message to delete not found''\<rparr>\<rparr>)
     [GetKey 8863 \<mapsto> example_entity] 8863 7 =
     (Map.empty,
      [PostDeleteMessage \<lparr>d_ChatID = ''@yahnc'', d_MessageID = 7\<rparr>, LogWarningf,
       Delete (GetKey 8863), LogInfof]) \<and>
   deleteMessageFunc
     (example_world\<lparr>delete_reply := Decoded \<lparr>OK = False, ErrorCode = 403,
                        Description = ''chat not found''\<rparr>\<rparr>)
     [GetKey 8863 \<mapsto> example_entity] 8863 7 =
     ([GetKey 8863 \<mapsto> example_entity],
      [PostDeleteMessage \<lparr>d_ChatID = ''@yahnc'', d_MessageID = 7\<rparr>,
       LogErrorf (WithStack (Errorf_response \<lparr>OK = False, ErrorCode = 403,
                                               Description = ''chat not found''\<rparr>))])"
  using deleteMessageFunc_failure_response
          [of "example_world\<lparr>delete_reply := Decoded \<lparr>OK = False, ErrorCode = 400,
                        Description = ''Bad Request: message to delete not found''\<rparr>\<rparr>"
              "\<lparr>OK = False, ErrorCode = 400,
                Description = ''Bad Request: message to delete not found''\<rparr>"
              "[GetKey 8863 \<mapsto> example_entity]" 8863 7]
        deleteMessageFunc_failure_response
          [of "example_world\<lparr>delete_reply := Decoded \<lparr>OK = False, ErrorCode = 403,
                        Description = ''chat not found''\<rparr>\<rparr>"
              "\<lparr>OK = False, ErrorCode = 403, Description = ''chat not found''\<rparr>"
              "[GetKey 8863 \<mapsto> example_entity]" 8863 7]
  by (simp add: example_world_def DefaultChatID_def Contains_sublist [symmetric])

section \<open>Properties of the create and update tasks\<close>

text \<open>
  What the two methods return for a story that has not been enriched yet, once the item
  API has answered with a body that decodes.
\<close>

lemma fill_if_missing_Decoded:
  "\<not> missingFieldsLoaded s \<Longrightarrow> item_reply w = Decoded j \<Longrightarrow>
   fill_if_missing w s = (None, enriched j s, [GetItem (ID s)])"
  by (simp add: fill_if_missing_def FillMissingFields_def enriched_def)

lemma ShouldIgnore_enriched: "ShouldIgnore c (enriched j s) = ShouldIgnore c (Decode j s)"
  by (simp add: ShouldIgnore_def enriched_def)

lemma MessageID_enriched: "MessageID (enriched j s) = MessageID s"
  by (simp add: enriched_def Decode_def)

lemma ID_enriched: "ID (enriched j s) = (case j_id j of None \<Rightarrow> ID s | Some v \<Rightarrow> v)"
  by (simp add: enriched_def Decode_def)

lemma EditMessage_ignored:
  assumes "item_reply w = Decoded j" "\<not> missingFieldsLoaded s" "ShouldIgnore c (Decode j s)"
  shows "EditMessage c w s = (Some (WithStack ErrIgnoredItem), enriched j s, [GetItem (ID s)])"
  using assms by (simp add: EditMessage_def fill_if_missing_Decoded ShouldIgnore_enriched)

lemma SendMessage_ignored:
  assumes "item_reply w = Decoded j" "\<not> missingFieldsLoaded s" "ShouldIgnore c (Decode j s)"
  shows "SendMessage c w ds s = (Some ErrIgnoredItem, enriched j s, [GetItem (ID s)])"
  using assms by (simp add: SendMessage_def fill_if_missing_Decoded ShouldIgnore_enriched)

lemma EditMessage_passes:
  assumes "item_reply w = Decoded j" "\<not> missingFieldsLoaded s" "\<not> ShouldIgnore c (Decode j s)"
  shows "EditMessage c w s =
           (if edit_error w then Some (WithStack HTTPError) else None, enriched j s,
            [GetItem (ID s), PostEditMessageText (ToEditMessageTextRequest (enriched j s))])"
  using assms by (simp add: EditMessage_def fill_if_missing_Decoded ShouldIgnore_enriched)

lemma SendMessage_passes:
  assumes "item_reply w = Decoded j" "\<not> missingFieldsLoaded s" "\<not> ShouldIgnore c (Decode j s)"
  shows "SendMessage c w ds s =
           (if InDatastore w ds (enriched j s)
            then (Some (WithStack (Errorf_story_already_posted (enriched j s))), enriched j s,
                  [GetItem (ID s), LogInfof, Query (GetKey (ID (enriched j s)))])
            else (case send_reply w of
                    TransportError \<Rightarrow> Some (WithStack HTTPError)
                  | DecodeError \<Rightarrow> Some (WithStack JSONError)
                  | Decoded response \<Rightarrow> None,
                  case send_reply w of
                    Decoded response \<Rightarrow> (enriched j s)\<lparr>MessageID := r_MessageID (Result response)\<rparr>
                  | _ \<Rightarrow> enriched j s,
                  [GetItem (ID s), LogInfof, Query (GetKey (ID (enriched j s))),
                   PostSendMessage (ToSendMessageRequest (enriched j s))]))"
  using assms
  by (simp add: SendMessage_def fill_if_missing_Decoded ShouldIgnore_enriched Let_def
      split: reply.splits)

lemma editMessageFunc_ignored:
  assumes "item_reply w = Decoded j"
    and "ShouldIgnore c (Decode j (zeroStory\<lparr>ID := itemID, MessageID := messageID\<rparr>))"
  shows "editMessageFunc c w ds itemID messageID =
           (ds, [GetItem itemID, LogErrorf (WithStack ErrIgnoredItem)])"
  using assms
  by (simp add: editMessageFunc_def EditMessage_ignored [where j = j] zeroStory_def)

lemma sendMessageFunc_ignored:
  assumes "item_reply w = Decoded j"
    and "ShouldIgnore c (Decode j (zeroStory\<lparr>ID := itemID\<rparr>))"
  shows "sendMessageFunc c w ds itemID = (ds, [GetItem itemID])"
  using assms
  by (simp add: sendMessageFunc_def SendMessage_ignored [where j = j] zeroStory_def)

lemma ShouldIgnore_MessageID: "ShouldIgnore c (Decode j (s\<lparr>MessageID := m\<rparr>)) = ShouldIgnore c (Decode j s)"
  by (simp add: ShouldIgnore_def Decode_def split: option.splits)

text \<open>
  For every item that the filter rejects, neither task calls the channel or writes to the
  datastore; the create task logs nothing, and the update task logs the wrapped sentinel
  as an error.
\<close>

theorem ignored_item_tasks:
  assumes "item_reply w = Decoded j"
    and "ShouldIgnore c (Decode j (zeroStory\<lparr>ID := itemID\<rparr>))"
  shows "sendMessageFunc c w ds itemID = (ds, [GetItem itemID]) \<and>
         editMessageFunc c w ds itemID messageID =
           (ds, [GetItem itemID, LogErrorf (WithStack ErrIgnoredItem)])"
  using assms sendMessageFunc_ignored [where w = w and j = j and c = c and itemID = itemID]
    editMessageFunc_ignored [where w = w and j = j and c = c and itemID = itemID]
  by (simp add: ShouldIgnore_MessageID)

text \<open>Both tasks on the comment 8863.\<close>

theorem ignored_item_tasks_witness:
  "sendMessageFunc example_config (example_world\<lparr>item_reply := Decoded example_comment\<rparr>)
     [GetKey 8863 \<mapsto> example_entity] 8863 =
     ([GetKey 8863 \<mapsto> example_entity], [GetItem 8863]) \<and>
   editMessageFunc example_config (example_world\<lparr>item_reply := Decoded example_comment\<rparr>)
     [GetKey 8863 \<mapsto> example_entity] 8863 7 =
     ([GetKey 8863 \<mapsto> example_entity], [GetItem 8863, LogErrorf (WithStack ErrIgnoredItem)])"
  using ignored_item_tasks [where w = "example_world\<lparr>item_reply := Decoded example_comment\<rparr>"
      and j = example_comment and c = example_config and itemID = 8863 and messageID = 7
      and ds = "[GetKey 8863 \<mapsto> example_entity]"]
  by (simp add: ShouldIgnore_def Decode_def example_comment_def zeroStory_def example_world_def)

text \<open>
  C6 (a defect of the code). For a filtered-out item the claim makes the outcome of both
  tasks the sentinel \<open>ErrIgnoredItem\<close>, which the task recognizes and does not log. The
  create task does so. \<open>EditMessage\<close> returns the sentinel wrapped by \<open>errors.WithStack\<close>,
  which is not the sentinel, so the comparison \<open>err != ErrIgnoredItem\<close> of the update task
  holds and the task logs the outcome as an error. For the comment 8863 the update task
  makes no channel call and no store write, and logs the error; the create task logs
  nothing.
\<close>

theorem editMessageFunc_logs_ignored_item:
  "editMessageFunc example_config (example_world\<lparr>item_reply := Decoded example_comment\<rparr>)
     [GetKey 8863 \<mapsto> example_entity] 8863 7 =
     ([GetKey 8863 \<mapsto> example_entity], [GetItem 8863, LogErrorf (WithStack ErrIgnoredItem)]) \<and>
   sendMessageFunc example_config (example_world\<lparr>item_reply := Decoded example_comment\<rparr>)
     Map.empty 8863 = (Map.empty, [GetItem 8863])"
  by (simp add: editMessageFunc_ignored [where j = example_comment]
      sendMessageFunc_ignored [where j = example_comment]
      ShouldIgnore_def Decode_def example_comment_def zeroStory_def example_world_def)

text \<open>
  \<open>SendMessage\<close> never reads the field \<open>OK\<close> of the response it decodes.
\<close>

lemma SendMessage_never_reads_OK:
  "SendMessage c (w\<lparr>send_reply := Decoded (response\<lparr>s_OK := b\<rparr>)\<rparr>) ds s =
   SendMessage c (w\<lparr>send_reply := Decoded response\<rparr>) ds s"
  by (auto simp add: SendMessage_def fill_if_missing_def FillMissingFields_def InDatastore_def
      GetAll_keys_def Let_def split: reply.splits prod.splits option.splits)

text \<open>
  What does hold of the create task: it changes the datastore only after the item decoded
  and passed the filter, the guard found nothing, the response of the send decoded and
  the \<open>Put\<close> succeeded; the one record it then writes, under the key of the item
  identifier, carries the message identifier of the decoded response.
\<close>

lemma sendMessageFunc_writes_only_after_reply:
  assumes "fst (sendMessageFunc c w ds itemID) \<noteq> ds"
  shows "\<exists>j response.
           item_reply w = Decoded j \<and>
           \<not> ShouldIgnore c (Decode j (zeroStory\<lparr>ID := itemID\<rparr>)) \<and>
           \<not> InDatastore w ds (enriched j (zeroStory\<lparr>ID := itemID\<rparr>)) \<and>
           send_reply w = Decoded response \<and> \<not> put_fails w \<and>
           fst (sendMessageFunc c w ds itemID) =
             ds(GetKey itemID \<mapsto>
                  \<lparr>p_MessageID = r_MessageID (Result response),
                   p_ID = (case j_id j of None \<Rightarrow> itemID | Some v \<Rightarrow> v),
                   p_LastSave = now w\<rparr>)"
proof -
  let ?s0 = "zeroStory\<lparr>ID := itemID\<rparr>"
  have fresh: "\<not> missingFieldsLoaded ?s0" and id0: "ID ?s0 = itemID"
    by (simp_all add: zeroStory_def)
  obtain j where j: "item_reply w = Decoded j"
    using assms fresh
    by (cases "item_reply w")
       (auto simp: sendMessageFunc_def SendMessage_def fill_if_missing_def FillMissingFields_def)
  have pass: "\<not> ShouldIgnore c (Decode j ?s0)"
    using assms SendMessage_ignored [OF j fresh, of c ds]
    by (auto simp: sendMessageFunc_def)
  note run = SendMessage_passes [OF j fresh pass, of ds]
  have guard: "\<not> InDatastore w ds (enriched j ?s0)"
    using assms run by (auto simp: sendMessageFunc_def)
  obtain response where response: "send_reply w = Decoded response"
    using assms run guard by (cases "send_reply w") (auto simp: sendMessageFunc_def)
  have put: "\<not> put_fails w"
    using assms run guard response by (auto simp: sendMessageFunc_def Put_story_def)
  have "fst (sendMessageFunc c w ds itemID) =
          ds(GetKey itemID \<mapsto>
               \<lparr>p_MessageID = r_MessageID (Result response),
                p_ID = (case j_id j of None \<Rightarrow> itemID | Some v \<Rightarrow> v),
                p_LastSave = now w\<rparr>)"
    using run guard response put
    by (simp add: sendMessageFunc_def Put_story_def Save_def ID_enriched id0 split: option.splits)
  with j pass guard response put show ?thesis by blast
qed

text \<open>The create task for story 8863 on an empty datastore, every call succeeding.\<close>

theorem sendMessageFunc_writes_only_after_reply_witness:
  "\<exists>j response.
     item_reply example_world = Decoded j \<and>
     \<not> ShouldIgnore example_config (Decode j (zeroStory\<lparr>ID := 8863\<rparr>)) \<and>
     \<not> InDatastore example_world Map.empty (enriched j (zeroStory\<lparr>ID := 8863\<rparr>)) \<and>
     send_reply example_world = Decoded response \<and> \<not> put_fails example_world \<and>
     fst (sendMessageFunc example_config example_world Map.empty 8863) =
       [GetKey 8863 \<mapsto>
          \<lparr>p_MessageID = r_MessageID (Result response),
           p_ID = (case j_id j of None \<Rightarrow> 8863 | Some v \<Rightarrow> v),
           p_LastSave = now example_world\<rparr>]"
proof -
  have "fst (sendMessageFunc example_config example_world Map.empty 8863) (GetKey 8863) \<noteq> None"
    by (simp add: sendMessageFunc_def SendMessage_def fill_if_missing_def FillMissingFields_def
        InDatastore_def GetAll_keys_def Put_story_def Save_def
        example_world_def example_item_def example_config_def
        ShouldIgnore_def Decode_def zeroStory_def)
  then have "fst (sendMessageFunc example_config example_world Map.empty 8863) \<noteq> Map.empty"
    by auto
  from sendMessageFunc_writes_only_after_reply [OF this] show ?thesis .
qed

text \<open>
  C3 (a defect of the code). The claim has the create task write a record only after the
  channel send succeeded. \<open>SendMessage\<close> returns \<open>nil\<close> whenever the response decodes,
  also when the channel answers \<open>ok\<close> false and names no message (\<open>DeleteMessage\<close> checks
  \<open>response.OK\<close>; \<open>SendMessage\<close> does not): the task then writes a record with message
  identifier 0 for a story that was never posted. Here the datastore is empty and the
  channel answers the send for story 8863 with \<open>ok\<close> false.
\<close>

theorem sendMessageFunc_record_after_failed_send:
  "sendMessageFunc example_config
     (example_world\<lparr>send_reply := Decoded \<lparr>s_OK = False, Result = \<lparr>r_MessageID = 0\<rparr>\<rparr>\<rparr>)
     Map.empty 8863 =
   ([GetKey 8863 \<mapsto> \<lparr>p_MessageID = 0, p_ID = 8863, p_LastSave = 1000\<rparr>],
    [GetItem 8863, LogInfof, Query (GetKey 8863),
     PostSendMessage (ToSendMessageRequest (enriched example_item (zeroStory\<lparr>ID := 8863\<rparr>))),
     Put (GetKey 8863) \<lparr>p_MessageID = 0, p_ID = 8863, p_LastSave = 1000\<rparr>,
     LogInfof])"
  by (simp add: sendMessageFunc_def SendMessage_def fill_if_missing_def FillMissingFields_def
      InDatastore_def GetAll_keys_def Put_story_def Save_def enriched_def
      example_world_def example_item_def example_config_def
      ShouldIgnore_def Decode_def zeroStory_def)

text \<open>
  C7, as the claim states it, fails. The record an update writes holds the \<open>id\<close> that
  \<open>FillMissingFields\<close> decoded from the body of the item API (the field \<open>ID\<close> is tagged
  \<open>json:"id"\<close>) and the message identifier the task was given, not those of the record in
  the datastore. When the body for story 8863 carries the id 9999, the record under the
  key of 8863 gets the identifier 9999; and when the record of 8863 holds message 5 while
  the task was given message 7, the update replaces 5 by 7.
\<close>

theorem editMessageFunc_identifiers_counterexample:
  "fst (editMessageFunc example_config
          (example_world\<lparr>item_reply := Decoded (example_item\<lparr>j_id := Some 9999\<rparr>)\<rparr>)
          [GetKey 8863 \<mapsto> example_entity] 8863 7) (GetKey 8863) =
     Some \<lparr>p_MessageID = 7, p_ID = 9999, p_LastSave = 1000\<rparr> \<and>
   fst (editMessageFunc example_config example_world
          [GetKey 8863 \<mapsto> example_entity\<lparr>p_MessageID := 5\<rparr>] 8863 7) (GetKey 8863) =
     Some \<lparr>p_MessageID = 7, p_ID = 8863, p_LastSave = 1000\<rparr>"
  by (simp add: editMessageFunc_def EditMessage_def fill_if_missing_def FillMissingFields_def
      Put_story_def Save_def example_world_def example_item_def example_config_def
      ShouldIgnore_def Decode_def zeroStory_def)

text \<open>
  C7, amended. For every Update dispatch whose item detail decodes and passes the filter,
  the edit request carries the message identifier the task was given. The task ends in one
  of three ways: the client's error on the edit (logged, nothing written), a failing \<open>Put\<close>
  (logged, nothing written), or success; on success it writes, under the key of the item
  identifier, one record holding the message identifier the task was given, the id decoded
  from the item detail (the item identifier itself when the body carries no id) and the
  current time. So when the datastore's record already holds the item identifier and that
  message identifier, and the body carries no id or the id asked for, a successful update
  changes the datastore in that record's last-saved time only; and such an update never
  writes a message identifier other than the one it was given.
\<close>

theorem editMessageFunc_frame:
  assumes "item_reply w = Decoded j"
    and "\<not> ShouldIgnore c (Decode j (zeroStory\<lparr>ID := itemID, MessageID := messageID\<rparr>))"
  shows "e_MessageID (ToEditMessageTextRequest
                        (enriched j (zeroStory\<lparr>ID := itemID, MessageID := messageID\<rparr>))) = messageID \<and>
         editMessageFunc c w ds itemID messageID =
           (if edit_error w
            then (ds, [GetItem itemID,
                       PostEditMessageText (ToEditMessageTextRequest
                         (enriched j (zeroStory\<lparr>ID := itemID, MessageID := messageID\<rparr>))),
                       LogErrorf (WithStack HTTPError)])
            else if put_fails w
            then (ds, [GetItem itemID,
                       PostEditMessageText (ToEditMessageTextRequest
                         (enriched j (zeroStory\<lparr>ID := itemID, MessageID := messageID\<rparr>))),
                       Put (GetKey itemID)
                         \<lparr>p_MessageID = messageID,
                          p_ID = (case j_id j of None \<Rightarrow> itemID | Some v \<Rightarrow> v),
                          p_LastSave = now w\<rparr>,
                       LogErrorf DatastoreError, LogInfof])
            else (ds(GetKey itemID \<mapsto>
                         \<lparr>p_MessageID = messageID,
                          p_ID = (case j_id j of None \<Rightarrow> itemID | Some v \<Rightarrow> v),
                          p_LastSave = now w\<rparr>),
                  [GetItem itemID,
                   PostEditMessageText (ToEditMessageTextRequest
                     (enriched j (zeroStory\<lparr>ID := itemID, MessageID := messageID\<rparr>))),
                   Put (GetKey itemID)
                     \<lparr>p_MessageID = messageID,
                      p_ID = (case j_id j of None \<Rightarrow> itemID | Some v \<Rightarrow> v),
                      p_LastSave = now w\<rparr>,
                   LogInfof])) \<and>
         (\<forall>r. ds (GetKey itemID) = Some r \<and> p_MessageID r = messageID \<and> p_ID r = itemID \<and>
              (j_id j = None \<or> j_id j = Some itemID) \<and> \<not> edit_error w \<and> \<not> put_fails w \<longrightarrow>
              fst (editMessageFunc c w ds itemID messageID) =
                ds(GetKey itemID \<mapsto> r\<lparr>p_LastSave := now w\<rparr>))"
proof -
  let ?s0 = "zeroStory\<lparr>ID := itemID, MessageID := messageID\<rparr>"
  have fresh: "\<not> missingFieldsLoaded ?s0" and id0: "ID ?s0 = itemID"
    by (simp_all add: zeroStory_def)
  have req: "e_MessageID (ToEditMessageTextRequest (enriched j ?s0)) = messageID"
    by (simp add: ToEditMessageTextRequest_def MessageID_enriched)
  have ent: "Save (enriched j ?s0) (now w) =
      \<lparr>p_MessageID = messageID, p_ID = (case j_id j of None \<Rightarrow> itemID | Some v \<Rightarrow> v),
       p_LastSave = now w\<rparr>"
    by (simp add: Save_def MessageID_enriched ID_enriched zeroStory_def split: option.splits)
  have run: "editMessageFunc c w ds itemID messageID =
      (if edit_error w
       then (ds, [GetItem itemID, PostEditMessageText (ToEditMessageTextRequest (enriched j ?s0)),
                  LogErrorf (WithStack HTTPError)])
       else if put_fails w
       then (ds, [GetItem itemID, PostEditMessageText (ToEditMessageTextRequest (enriched j ?s0)),
                  Put (GetKey itemID) (Save (enriched j ?s0) (now w)),
                  LogErrorf DatastoreError, LogInfof])
       else (ds(GetKey itemID \<mapsto> Save (enriched j ?s0) (now w)),
             [GetItem itemID, PostEditMessageText (ToEditMessageTextRequest (enriched j ?s0)),
              Put (GetKey itemID) (Save (enriched j ?s0) (now w)), LogInfof]))"
    using EditMessage_passes [OF assms(1) fresh assms(2)]
    by (simp add: editMessageFunc_def Put_story_def id0)
  have only_time: "ds(GetKey itemID \<mapsto> Save (enriched j ?s0) (now w)) =
      ds(GetKey itemID \<mapsto> r\<lparr>p_LastSave := now w\<rparr>)"
    if "p_MessageID r = messageID" "p_ID r = itemID" "j_id j = None \<or> j_id j = Some itemID" for r
    using that by (auto simp: ent)
  show ?thesis
    using req run only_time by (simp add: ent)
qed


text \<open>The update of story 8863, posted as message 7, in a world where every call succeeds.\<close>

theorem editMessageFunc_frame_witness:
  "e_MessageID (ToEditMessageTextRequest
                  (enriched example_item (zeroStory\<lparr>ID := 8863, MessageID := 7\<rparr>))) = 7 \<and>
   fst (editMessageFunc example_config example_world [GetKey 8863 \<mapsto> example_entity] 8863 7) =
     [GetKey 8863 \<mapsto> \<lparr>p_MessageID = 7, p_ID = 8863, p_LastSave = 1000\<rparr>]"
  using editMessageFunc_frame [where w = example_world and j = example_item
          and c = example_config and itemID = 8863 and messageID = 7
          and ds = "[GetKey 8863 \<mapsto> example_entity]"]
  by (simp add: example_world_def example_item_def example_config_def example_entity_def
      ShouldIgnore_def Decode_def zeroStory_def)

text \<open>
  C9, as the claim states it, fails where the guard's own query fails: \<open>InDatastore\<close>
  discards the error of \<open>GetAll\<close> and reads no key as "not in the datastore". With a record
  of story 8863 (message 5) present and the query failing, the create task sends a message
  and overwrites the record.
\<close>

theorem sendMessageFunc_guard_counterexample:
  "fst (sendMessageFunc example_config (example_world\<lparr>query_fails := True\<rparr>)
          [GetKey 8863 \<mapsto> example_entity\<lparr>p_MessageID := 5\<rparr>] 8863) (GetKey 8863) =
     Some \<lparr>p_MessageID = 7, p_ID = 8863, p_LastSave = 1000\<rparr> \<and>
   list_ex channel_call
     (snd (sendMessageFunc example_config (example_world\<lparr>query_fails := True\<rparr>)
             [GetKey 8863 \<mapsto> example_entity\<lparr>p_MessageID := 5\<rparr>] 8863)) \<and>
   list_ex store_write
     (snd (sendMessageFunc example_config (example_world\<lparr>query_fails := True\<rparr>)
             [GetKey 8863 \<mapsto> example_entity\<lparr>p_MessageID := 5\<rparr>] 8863))"
  by (simp add: sendMessageFunc_def SendMessage_def fill_if_missing_def FillMissingFields_def
      InDatastore_def GetAll_keys_def Put_story_def Save_def
      example_world_def example_item_def example_config_def
      ShouldIgnore_def Decode_def zeroStory_def)

text \<open>
  The guard queries the key of the story's \<open>ID\<close> after \<open>FillMissingFields\<close> has decoded the
  body into the story, while the task writes under the key of the identifier it was given.
  With a record of story 8863 present and the query working, a body that carries the id
  9999 lets the guard look for 9999: the create task sends a message and overwrites the
  record of 8863.
\<close>

lemma sendMessageFunc_guard_decoded_id:
  "fst (sendMessageFunc example_config
          (example_world\<lparr>item_reply := Decoded (example_item\<lparr>j_id := Some 9999\<rparr>)\<rparr>)
          [GetKey 8863 \<mapsto> example_entity\<lparr>p_MessageID := 5\<rparr>] 8863) (GetKey 8863) =
     Some \<lparr>p_MessageID = 7, p_ID = 9999, p_LastSave = 1000\<rparr> \<and>
   list_ex channel_call
     (snd (sendMessageFunc example_config
             (example_world\<lparr>item_reply := Decoded (example_item\<lparr>j_id := Some 9999\<rparr>)\<rparr>)
             [GetKey 8863 \<mapsto> example_entity\<lparr>p_MessageID := 5\<rparr>] 8863))"
  by (simp add: sendMessageFunc_def SendMessage_def fill_if_missing_def FillMissingFields_def
      InDatastore_def GetAll_keys_def Put_story_def Save_def
      example_world_def example_item_def example_config_def
      ShouldIgnore_def Decode_def zeroStory_def)

text \<open>
  C9, amended. For every Create dispatch whose item detail decodes and passes the filter,
  if a persisted record for the item's identifier exists when the guard runs (whether or
  not it existed when the cycle classified the item: the datastore is read at dispatch
  time), the guard's query does not fail, and the body of the item detail carries no id or
  the id asked for, then \<open>SendMessage\<close> returns the "story already posted" error after the
  query, before any channel send, and the task logs it and writes nothing.
\<close>

theorem sendMessageFunc_already_posted:
  assumes "item_reply w = Decoded j"
    and "j_id j = None \<or> j_id j = Some itemID"
    and "\<not> ShouldIgnore c (Decode j (zeroStory\<lparr>ID := itemID\<rparr>))"
    and "ds (GetKey itemID) \<noteq> None"
    and "\<not> query_fails w"
  shows "SendMessage c w ds (zeroStory\<lparr>ID := itemID\<rparr>) =
           (Some (WithStack (Errorf_story_already_posted (enriched j (zeroStory\<lparr>ID := itemID\<rparr>)))),
            enriched j (zeroStory\<lparr>ID := itemID\<rparr>),
            [GetItem itemID, LogInfof, Query (GetKey itemID)]) \<and>
         sendMessageFunc c w ds itemID =
           (ds, [GetItem itemID, LogInfof, Query (GetKey itemID),
                 LogErrorf (WithStack (Errorf_story_already_posted
                                         (enriched j (zeroStory\<lparr>ID := itemID\<rparr>))))])"
proof -
  let ?s0 = "zeroStory\<lparr>ID := itemID\<rparr>"
  have fresh: "\<not> missingFieldsLoaded ?s0" and id0: "ID ?s0 = itemID"
    by (simp_all add: zeroStory_def)
  have id1: "ID (enriched j ?s0) = itemID"
    using assms(2) by (auto simp: ID_enriched id0)
  have guard: "InDatastore w ds (enriched j ?s0)"
    using assms(4,5) by (simp add: InDatastore_def GetAll_keys_def id1)
  have send: "SendMessage c w ds ?s0 =
      (Some (WithStack (Errorf_story_already_posted (enriched j ?s0))), enriched j ?s0,
       [GetItem itemID, LogInfof, Query (GetKey itemID)])"
    using SendMessage_passes [OF assms(1) fresh assms(3), of ds] guard
    by (simp add: id0 id1)
  show ?thesis
    using send by (simp add: sendMessageFunc_def)
qed

text \<open>The create task for story 8863 when its record is already in the datastore.\<close>

theorem sendMessageFunc_already_posted_witness:
  "sendMessageFunc example_config example_world [GetKey 8863 \<mapsto> example_entity] 8863 =
     ([GetKey 8863 \<mapsto> example_entity],
      [GetItem 8863, LogInfof, Query (GetKey 8863),
       LogErrorf (WithStack (Errorf_story_already_posted
                               (enriched example_item (zeroStory\<lparr>ID := 8863\<rparr>))))])"
  using sendMessageFunc_already_posted [where w = example_world and j = example_item
          and c = example_config and itemID = 8863
          and ds = "[GetKey 8863 \<mapsto> example_entity]"]
  by (simp add: example_world_def example_item_def example_config_def
      ShouldIgnore_def Decode_def zeroStory_def)

section \<open>Properties of the poll cycle\<close>

text \<open>
  The two loops, when no index runs out of range: one action per entry, in order.
\<close>

lemma upt_split: "[0..<Suc n] = 0 # map Suc [0..<n]"
  by (simp add: upt_conv_Cons map_Suc_upt del: upt_Suc)

lemma edit_all_in_range:
  "i + length keys \<le> length saved \<Longrightarrow>
   edit_all saved i keys =
     (map (\<lambda>n. editMessageFunc_Call (IntID (keys ! n)) (MessageID (saved ! (i + n))))
        [0..<length keys], False)"
proof (induction keys arbitrary: i)
  case Nil
  then show ?case by simp
next
  case (Cons key rest)
  then have "Suc i + length rest \<le> length saved" and "i < length saved" by simp_all
  with Cons.IH [of "Suc i"] show ?case
    by (simp add: upt_split comp_def del: upt_Suc)
qed

lemma per_key_in_range:
  "i + length errs \<le> length keys \<Longrightarrow> i + length errs \<le> length saved \<Longrightarrow>
   per_key keys saved i errs =
     (map (\<lambda>n. case errs ! n of
                  no_error \<Rightarrow>
                    editMessageFunc_Call (IntID (keys ! (i + n))) (MessageID (saved ! (i + n)))
                | ErrNoSuchEntity \<Rightarrow> sendMessageFunc_Call (IntID (keys ! (i + n)))
                | other_error \<Rightarrow> log_Errorf)
        [0..<length errs], False)"
proof (induction errs arbitrary: i)
  case Nil
  then show ?case by simp
next
  case (Cons err rest)
  then have "Suc i + length rest \<le> length keys" "Suc i + length rest \<le> length saved"
    and "i < length keys" "i < length saved" by simp_all
  with Cons.IH [of "Suc i"] show ?case
    by (cases err) (simp_all add: upt_split comp_def split: entity_error.split del: upt_Suc)
qed

lemma length_savedStories: "length (savedStories p) = BatchSize"
  by (simp add: savedStories_def)

lemma MessageID_savedStories:
  "i < BatchSize \<Longrightarrow>
   MessageID (savedStories p ! i) = (case loaded p i of None \<Rightarrow> 0 | Some e \<Rightarrow> p_MessageID e)"
  by (simp add: savedStories_def Load_def zeroStory_def split: option.splits)

text \<open>
  The length check of \<open>GetMulti\<close> decides every cycle whose feed is not of \<open>BatchSize\<close>
  identifiers: the handler takes the branch of the unknown error and classifies nothing,
  whatever the datastore holds.
\<close>

lemma GetMulti_BatchSize:
  "length keys = BatchSize \<Longrightarrow> GetMulti p keys (savedStories p) = GetMulti_err p"
  by (simp add: GetMulti_def length_savedStories)

theorem handler_other_feed_length:
  assumes "topStories p = Some stories" and "length stories \<noteq> BatchSize"
  shows "handler p = unknown_GetMulti_error \<and> classification (handler p) = None"
  using assms by (simp add: handler_def GetMulti_def length_savedStories)

text \<open>A feed of one identifier, with a datastore that would have answered without error.\<close>

theorem handler_other_feed_length_witness:
  "handler \<lparr>topStories = Some [8863], GetMulti_err = GetMulti_nil,
            loaded = [0 \<mapsto> example_entity]\<rparr> = unknown_GetMulti_error \<and>
   classification (handler \<lparr>topStories = Some [8863], GetMulti_err = GetMulti_nil,
                             loaded = [0 \<mapsto> example_entity]\<rparr>) = None"
  using handler_other_feed_length
          [where p = "\<lparr>topStories = Some [8863], GetMulti_err = GetMulti_nil,
                        loaded = [0 \<mapsto> example_entity]\<rparr>"
             and stories = "[8863]"]
  by (simp add: BatchSize_def)

text \<open>
  C4, as the claim states it, fails: over a feed of \<open>BatchSize\<close> identifiers, when the
  datastore answers the lookup with an error that is not an \<open>appengine.MultiError\<close>, the
  handler logs it and returns, and all thirty fetched items are left unclassified.
\<close>

theorem handler_unknown_error_counterexample:
  "length example_feed = BatchSize \<and>
   handler \<lparr>topStories = Some example_feed, GetMulti_err = unknown_error,
            loaded = Map.empty\<rparr> = unknown_GetMulti_error \<and>
   classification (handler \<lparr>topStories = Some example_feed, GetMulti_err = unknown_error,
                             loaded = Map.empty\<rparr>) = None"
  by (simp add: handler_def GetMulti_def length_savedStories example_feed_def BatchSize_def)

text \<open>
  C4, amended. For every poll cycle over a feed of exactly \<open>BatchSize\<close> (30) fetched item
  identifiers: when the bulk lookup returns per-key errors, one entry per key,
  classification assigns to the item at each position exactly one outcome, by that
  position's entry: Update with the loaded message identifier (no error), Create (no such
  entity), or the logged skip (any other error), and a skip does not stop the items after
  it; when the bulk lookup returns no error at all, every item is classified as Update;
  when the bulk lookup fails with an error that is not per key, no item is classified.
\<close>

theorem handler_classification:
  assumes "topStories p = Some stories" and "length stories = BatchSize"
  shows "(GetMulti_err p = GetMulti_nil \<longrightarrow>
            classification (handler p) =
              Some (map (\<lambda>i. editMessageFunc_Call (stories ! i)
                                (case loaded p i of None \<Rightarrow> 0 | Some e \<Rightarrow> p_MessageID e))
                      [0..<length stories])) \<and>
         (\<forall>errs. GetMulti_err p = MultiError errs \<and> length errs = length stories \<longrightarrow>
            classification (handler p) =
              Some (map (\<lambda>i. case errs ! i of
                                no_error \<Rightarrow>
                                  editMessageFunc_Call (stories ! i)
                                    (case loaded p i of None \<Rightarrow> 0 | Some e \<Rightarrow> p_MessageID e)
                              | ErrNoSuchEntity \<Rightarrow> sendMessageFunc_Call (stories ! i)
                              | other_error \<Rightarrow> log_Errorf)
                      [0..<length stories])) \<and>
         (GetMulti_err p = unknown_error \<longrightarrow> classification (handler p) = None)"
proof (intro conjI allI impI)
  have lookup: "GetMulti p (map GetKey stories) (savedStories p) = GetMulti_err p"
    using assms(2) by (simp add: GetMulti_BatchSize)
  have fits: "length stories \<le> BatchSize"
    using assms(2) by simp
  {
    assume "GetMulti_err p = GetMulti_nil"
    then show "classification (handler p) =
        Some (map (\<lambda>i. editMessageFunc_Call (stories ! i)
                          (case loaded p i of None \<Rightarrow> 0 | Some e \<Rightarrow> p_MessageID e))
                [0..<length stories])"
      using assms(1) fits lookup edit_all_in_range [of 0 "map GetKey stories" "savedStories p"]
      by (simp add: handler_def Let_def length_savedStories MessageID_savedStories)
  next
    fix errs
    assume "GetMulti_err p = MultiError errs \<and> length errs = length stories"
    then show "classification (handler p) =
        Some (map (\<lambda>i. case errs ! i of
                          no_error \<Rightarrow>
                            editMessageFunc_Call (stories ! i)
                              (case loaded p i of None \<Rightarrow> 0 | Some e \<Rightarrow> p_MessageID e)
                        | ErrNoSuchEntity \<Rightarrow> sendMessageFunc_Call (stories ! i)
                        | other_error \<Rightarrow> log_Errorf)
                [0..<length stories])"
      using assms(1) fits lookup per_key_in_range [of 0 errs "map GetKey stories" "savedStories p"]
      by (simp add: handler_def Let_def length_savedStories MessageID_savedStories
          cong: entity_error.case_cong)
  next
    assume "GetMulti_err p = unknown_error"
    then show "classification (handler p) = None"
      using assms(1) lookup by (simp add: handler_def Let_def)
  }
qed

text \<open>
  Two cycles over the feed of thirty identifiers 8863 to 8892. In the first the lookup
  finds the first item (message 7), reports an error for the third and no entity for the
  others; in the second it finds all thirty, posted as messages 100 to 129.
\<close>

theorem handler_classification_witness:
  "classification (handler \<lparr>topStories = Some example_feed,
                             GetMulti_err = MultiError example_errors,
                             loaded = [0 \<mapsto> example_entity]\<rparr>) =
     Some [editMessageFunc_Call 8863 7, sendMessageFunc_Call 8864, log_Errorf,
           sendMessageFunc_Call 8866, sendMessageFunc_Call 8867, sendMessageFunc_Call
           8868, sendMessageFunc_Call 8869, sendMessageFunc_Call 8870,
           sendMessageFunc_Call 8871, sendMessageFunc_Call 8872, sendMessageFunc_Call
           8873, sendMessageFunc_Call 8874, sendMessageFunc_Call 8875,
           sendMessageFunc_Call 8876, sendMessageFunc_Call 8877, sendMessageFunc_Call
           8878, sendMessageFunc_Call 8879, sendMessageFunc_Call 8880,
           sendMessageFunc_Call 8881, sendMessageFunc_Call 8882, sendMessageFunc_Call
           8883, sendMessageFunc_Call 8884, sendMessageFunc_Call 8885,
           sendMessageFunc_Call 8886, sendMessageFunc_Call 8887, sendMessageFunc_Call
           8888, sendMessageFunc_Call 8889, sendMessageFunc_Call 8890,
           sendMessageFunc_Call 8891, sendMessageFunc_Call 8892] \<and>
   classification (handler \<lparr>topStories = Some example_feed,
                             GetMulti_err = GetMulti_nil,
                             loaded = example_loaded\<rparr>) =
     Some [editMessageFunc_Call 8863 100, editMessageFunc_Call 8864 101,
           editMessageFunc_Call 8865 102, editMessageFunc_Call 8866 103,
           editMessageFunc_Call 8867 104, editMessageFunc_Call 8868 105,
           editMessageFunc_Call 8869 106, editMessageFunc_Call 8870 107,
           editMessageFunc_Call 8871 108, editMessageFunc_Call 8872 109,
           editMessageFunc_Call 8873 110, editMessageFunc_Call 8874 111,
           editMessageFunc_Call 8875 112, editMessageFunc_Call 8876 113,
           editMessageFunc_Call 8877 114, editMessageFunc_Call 8878 115,
           editMessageFunc_Call 8879 116, editMessageFunc_Call 8880 117,
           editMessageFunc_Call 8881 118, editMessageFunc_Call 8882 119,
           editMessageFunc_Call 8883 120, editMessageFunc_Call 8884 121,
           editMessageFunc_Call 8885 122, editMessageFunc_Call 8886 123,
           editMessageFunc_Call 8887 124, editMessageFunc_Call 8888 125,
           editMessageFunc_Call 8889 126, editMessageFunc_Call 8890 127,
           editMessageFunc_Call 8891 128, editMessageFunc_Call 8892 129]"
  using handler_classification
          [where p = "\<lparr>topStories = Some example_feed,
                        GetMulti_err = MultiError example_errors,
                        loaded = [0 \<mapsto> example_entity]\<rparr>"
             and stories = example_feed]
        handler_classification
          [where p = "\<lparr>topStories = Some example_feed,
                        GetMulti_err = GetMulti_nil,
                        loaded = example_loaded\<rparr>"
             and stories = example_feed]
  by (simp add: BatchSize_def example_entity_def example_feed_def example_errors_def
      example_loaded_def upt_rec)

section \<open>Properties of the retention sweep\<close>

text \<open>
  Twenty-four hours are well inside the range of a duration, so the comparison of the
  sweep is a comparison of the true age.
\<close>

lemma Sub_exceeds_day: "24 * Hour < Sub t u \<longleftrightarrow> 24 * Hour < t - u"
  by (simp add: Sub_def maxDuration_def minDuration_def Hour_def)

lemma sweep_filter:
  "sweep t stories =
     map (\<lambda>s. deleteMessageFunc_Call (ID s) (MessageID s))
       (filter (\<lambda>s. 24 * Hour < t - LastSave s) stories)"
  by (induction stories) (simp_all add: Sub_exceeds_day)

text \<open>
  C8. For every sweep over the persisted records that the scan returned, the Delete actions
  submitted are, in the order of the scan, one for each record whose age (now minus
  last-saved, in nanoseconds) strictly exceeds 24 hours, carrying that record's identifier
  and message identifier, and none for any other record.
\<close>

theorem cleanUpHandler_deletes_expired:
  "cleanUpHandler (Some stories) t =
     Some (map (\<lambda>s. deleteMessageFunc_Call (ID s) (MessageID s))
             (filter (\<lambda>s. 24 * 3600 * 1000000000 < t - LastSave s) stories))"
  by (simp add: cleanUpHandler_def sweep_filter Hour_def)

text \<open>
  A sweep at hour 25 over records saved at hours 0, 1 and 24: ages 25 hours, exactly 24
  hours and 1 hour. Only the first record is deleted.
\<close>

theorem cleanUpHandler_deletes_expired_witness:
  "cleanUpHandler
     (Some [zeroStory\<lparr>ID := 1, MessageID := 11, LastSave := 0\<rparr>,
            zeroStory\<lparr>ID := 2, MessageID := 12, LastSave := 3600000000000\<rparr>,
            zeroStory\<lparr>ID := 3, MessageID := 13, LastSave := 86400000000000\<rparr>])
     90000000000000 =
   Some [deleteMessageFunc_Call 1 11]"
  using cleanUpHandler_deletes_expired
          [of "[zeroStory\<lparr>ID := 1, MessageID := 11, LastSave := 0\<rparr>,
                zeroStory\<lparr>ID := 2, MessageID := 12, LastSave := 3600000000000\<rparr>,
                zeroStory\<lparr>ID := 3, MessageID := 13, LastSave := 86400000000000\<rparr>]"
              90000000000000]
  by (simp add: zeroStory_def)

section \<open>Properties of the set of identifiers\<close>

text \<open>
  With one loop variable, \<open>ret\<close> points to that variable from the first iteration on, the
  comparison reads \<open>i\<close> against itself, and the loop ends with \<open>ret\<close> pointing to the key
  visited last.
\<close>

lemma Max_loop_one_variable_step:
  "ret = None \<or> ret = Some 0 \<Longrightarrow>
   Max_loop one_variable k (x # rest) m ret =
   Max_loop one_variable (Suc k) rest (m(0 := x)) (Some 0)"
  by (auto simp: one_variable_def)

lemma Max_loop_one_variable:
  "ret = None \<or> ret = Some 0 \<Longrightarrow> v = last (x # rest) \<Longrightarrow>
   Max_loop one_variable k (x # rest) m ret = (m(0 := v), Some 0)"
proof (induction rest arbitrary: k x m ret)
  case Nil
  have "Max_loop one_variable k [x] m ret =
        Max_loop one_variable (Suc k) [] (m(0 := x)) (Some 0)"
    using Nil.prems(1) by (rule Max_loop_one_variable_step)
  also have "\<dots> = (m(0 := x), Some 0)"
    by simp
  finally show ?case
    using Nil.prems(2) by (simp only: last.simps simp_thms if_True)
next
  case (Cons y rest)
  have "Max_loop one_variable k (x # y # rest) m ret =
        Max_loop one_variable (Suc k) (y # rest) (m(0 := x)) (Some 0)"
    using Cons.prems(1) by (rule Max_loop_one_variable_step)
  also have "\<dots> = ((m(0 := x))(0 := v), Some 0)"
    using Cons.prems(2) by (intro Cons.IH) simp_all
  finally show ?case
    by (simp only: fun_upd_upd)
qed

lemma Min_loop_one_variable_step:
  "ret = None \<or> ret = Some 0 \<Longrightarrow>
   Min_loop one_variable k (x # rest) m ret =
   Min_loop one_variable (Suc k) rest (m(0 := x)) (Some 0)"
  by (auto simp: one_variable_def)

lemma Min_loop_one_variable:
  "ret = None \<or> ret = Some 0 \<Longrightarrow> v = last (x # rest) \<Longrightarrow>
   Min_loop one_variable k (x # rest) m ret = (m(0 := v), Some 0)"
proof (induction rest arbitrary: k x m ret)
  case Nil
  have "Min_loop one_variable k [x] m ret =
        Min_loop one_variable (Suc k) [] (m(0 := x)) (Some 0)"
    using Nil.prems(1) by (rule Min_loop_one_variable_step)
  also have "\<dots> = (m(0 := x), Some 0)"
    by simp
  finally show ?case
    using Nil.prems(2) by (simp only: last.simps simp_thms if_True)
next
  case (Cons y rest)
  have "Min_loop one_variable k (x # y # rest) m ret =
        Min_loop one_variable (Suc k) (y # rest) (m(0 := x)) (Some 0)"
    using Cons.prems(1) by (rule Min_loop_one_variable_step)
  also have "\<dots> = ((m(0 := x))(0 := v), Some 0)"
    using Cons.prems(2) by (intro Cons.IH) simp_all
  finally show ?case
    by (simp only: fun_upd_upd)
qed

lemma Max_IntSet_last:
  "Max_IntSet order = (if order = [] then Inl nil_pointer_dereference else Inr (last order))"
proof (cases order)
  case Nil
  then show ?thesis by (simp add: Max_IntSet_def Max_in_def)
next
  case (Cons x rest)
  have "Max_loop one_variable 0 (x # rest) (\<lambda>a. 0) None =
        ((\<lambda>a. 0)(0 := last (x # rest)), Some 0)"
    by (rule Max_loop_one_variable) simp_all
  with Cons show ?thesis
    by (simp add: Max_IntSet_def Max_in_def del: Max_loop.simps(2))
qed

lemma Min_IntSet_last:
  "Min_IntSet order = (if order = [] then Inl nil_pointer_dereference else Inr (last order))"
proof (cases order)
  case Nil
  then show ?thesis by (simp add: Min_IntSet_def Min_in_def)
next
  case (Cons x rest)
  have "Min_loop one_variable 0 (x # rest) (\<lambda>a. 0) None =
        ((\<lambda>a. 0)(0 := last (x # rest)), Some 0)"
    by (rule Min_loop_one_variable) simp_all
  with Cons show ?thesis
    by (simp add: Min_IntSet_def Min_in_def del: Min_loop.simps(2))
qed

text \<open>
  With a variable per iteration the same loops return the largest and the smallest key.
\<close>

lemma Max_loop_per_iteration_step:
  "Max_loop variable_per_iteration k (x # xs) m (Some r) =
   Max_loop variable_per_iteration (Suc k) xs (m(k := x))
     (if (m(k := x)) r <s x then Some k else Some r)"
  by (simp add: variable_per_iteration_def)

lemma Max_loop_per_iteration:
  "r < k \<Longrightarrow> Max_loop variable_per_iteration k xs m (Some r) = (m', ret') \<Longrightarrow>
   \<exists>r'. ret' = Some r' \<and> (m' r' = m r \<or> m' r' \<in> set xs) \<and>
        sint (m r) \<le> sint (m' r') \<and> (\<forall>y\<in>set xs. sint y \<le> sint (m' r')) \<and>
        (\<forall>a<k. m' a = m a)"
proof (induction xs arbitrary: k m r)
  case Nil
  then show ?case by auto
next
  case (Cons x xs)
  let ?m1 = "m(k := x)"
  have cells: "?m1 r = m r" "?m1 k = x"
    using Cons.prems(1) by simp_all
  show ?case
  proof (cases "m r <s x")
    case True
    then have "Max_loop variable_per_iteration (Suc k) xs ?m1 (Some k) = (m', ret')"
      using Cons.prems cells
      by (simp add: Max_loop_per_iteration_step del: Max_loop.simps(2))
    from Cons.IH [OF _ this] obtain r' where r': "ret' = Some r'"
      "m' r' = ?m1 k \<or> m' r' \<in> set xs" "sint (?m1 k) \<le> sint (m' r')"
      "\<forall>y\<in>set xs. sint y \<le> sint (m' r')" "\<forall>a<Suc k. m' a = ?m1 a"
      by auto
    from True have "sint (m r) < sint x" by (simp add: word_sless_alt)
    with r' cells show ?thesis by auto
  next
    case False
    then have "Max_loop variable_per_iteration (Suc k) xs ?m1 (Some r) = (m', ret')"
      using Cons.prems cells
      by (simp add: Max_loop_per_iteration_step del: Max_loop.simps(2))
    from Cons.IH [OF _ this] Cons.prems(1) obtain r' where r': "ret' = Some r'"
      "m' r' = ?m1 r \<or> m' r' \<in> set xs" "sint (?m1 r) \<le> sint (m' r')"
      "\<forall>y\<in>set xs. sint y \<le> sint (m' r')" "\<forall>a<Suc k. m' a = ?m1 a"
      by auto
    from False have "sint x \<le> sint (m r)" by (simp add: word_sless_alt)
    with r' cells Cons.prems(1) show ?thesis by auto
  qed
qed

lemma Max_in_per_iteration:
  assumes "order \<noteq> []"
  shows "\<exists>v. Max_in variable_per_iteration order = Inr v \<and> v \<in> set order \<and>
             (\<forall>y\<in>set order. sint y \<le> sint v)"
proof -
  from assms obtain x rest where order: "order = x # rest" by (cases order) auto
  obtain m' ret' where run:
    "Max_loop variable_per_iteration (Suc 0) rest ((\<lambda>a. 0)(0 := x)) (Some 0) = (m', ret')"
    by (cases "Max_loop variable_per_iteration (Suc 0) rest ((\<lambda>a. 0)(0 := x)) (Some 0)")
  from Max_loop_per_iteration [OF _ run] obtain r' where r': "ret' = Some r'"
    "m' r' = x \<or> m' r' \<in> set rest" "sint x \<le> sint (m' r')"
    "\<forall>y\<in>set rest. sint y \<le> sint (m' r')"
    by auto
  have "Max_in variable_per_iteration order = Inr (m' r')"
    using run r'(1) by (simp add: Max_in_def order) (simp add: variable_per_iteration_def)
  with r' order show ?thesis by auto
qed

lemma Min_loop_per_iteration_step:
  "Min_loop variable_per_iteration k (x # xs) m (Some r) =
   Min_loop variable_per_iteration (Suc k) xs (m(k := x))
     (if x <s (m(k := x)) r then Some k else Some r)"
  by (simp add: variable_per_iteration_def)

lemma Min_loop_per_iteration:
  "r < k \<Longrightarrow> Min_loop variable_per_iteration k xs m (Some r) = (m', ret') \<Longrightarrow>
   \<exists>r'. ret' = Some r' \<and> (m' r' = m r \<or> m' r' \<in> set xs) \<and>
        sint (m' r') \<le> sint (m r) \<and> (\<forall>y\<in>set xs. sint (m' r') \<le> sint y) \<and>
        (\<forall>a<k. m' a = m a)"
proof (induction xs arbitrary: k m r)
  case Nil
  then show ?case by auto
next
  case (Cons x xs)
  let ?m1 = "m(k := x)"
  have cells: "?m1 r = m r" "?m1 k = x"
    using Cons.prems(1) by simp_all
  show ?case
  proof (cases "x <s m r")
    case True
    then have "Min_loop variable_per_iteration (Suc k) xs ?m1 (Some k) = (m', ret')"
      using Cons.prems cells
      by (simp add: Min_loop_per_iteration_step del: Min_loop.simps(2))
    from Cons.IH [OF _ this] obtain r' where r': "ret' = Some r'"
      "m' r' = ?m1 k \<or> m' r' \<in> set xs" "sint (m' r') \<le> sint (?m1 k)"
      "\<forall>y\<in>set xs. sint (m' r') \<le> sint y" "\<forall>a<Suc k. m' a = ?m1 a"
      by auto
    from True have "sint x < sint (m r)" by (simp add: word_sless_alt)
    with r' cells show ?thesis by auto
  next
    case False
    then have "Min_loop variable_per_iteration (Suc k) xs ?m1 (Some r) = (m', ret')"
      using Cons.prems cells
      by (simp add: Min_loop_per_iteration_step del: Min_loop.simps(2))
    from Cons.IH [OF _ this] Cons.prems(1) obtain r' where r': "ret' = Some r'"
      "m' r' = ?m1 r \<or> m' r' \<in> set xs" "sint (m' r') \<le> sint (?m1 r)"
      "\<forall>y\<in>set xs. sint (m' r') \<le> sint y" "\<forall>a<Suc k. m' a = ?m1 a"
      by auto
    from False have "sint (m r) \<le> sint x" by (simp add: word_sless_alt)
    with r' cells Cons.prems(1) show ?thesis by auto
  qed
qed

lemma Min_in_per_iteration:
  assumes "order \<noteq> []"
  shows "\<exists>v. Min_in variable_per_iteration order = Inr v \<and> v \<in> set order \<and>
             (\<forall>y\<in>set order. sint v \<le> sint y)"
proof -
  from assms obtain x rest where order: "order = x # rest" by (cases order) auto
  obtain m' ret' where run:
    "Min_loop variable_per_iteration (Suc 0) rest ((\<lambda>a. 0)(0 := x)) (Some 0) = (m', ret')"
    by (cases "Min_loop variable_per_iteration (Suc 0) rest ((\<lambda>a. 0)(0 := x)) (Some 0)")
  from Min_loop_per_iteration [OF _ run] obtain r' where r': "ret' = Some r'"
    "m' r' = x \<or> m' r' \<in> set rest" "sint (m' r') \<le> sint x"
    "\<forall>y\<in>set rest. sint (m' r') \<le> sint y"
    by auto
  have "Min_in variable_per_iteration order = Inr (m' r')"
    using run r'(1) by (simp add: Min_in_def order) (simp add: variable_per_iteration_def)
  with r' order show ?thesis by auto
qed

text \<open>
  \<open>Max\<close> and \<open>Min\<close> with one loop variable: the nil dereference on the empty set, the
  key visited last otherwise.
\<close>

theorem IntSet_one_variable:
  "Max_IntSet order = (if order = [] then Inl nil_pointer_dereference else Inr (last order)) \<and>
   Min_IntSet order = (if order = [] then Inl nil_pointer_dereference else Inr (last order))"
  by (simp only: Max_IntSet_last Min_IntSet_last simp_thms)

text \<open>
  \<open>Max\<close> and \<open>Min\<close> with a variable per iteration, on a non-empty set: a largest and a
  smallest key of the set, in the signed order.
\<close>

theorem IntSet_variable_per_iteration:
  assumes "order \<noteq> []"
  shows "\<exists>hi lo. Max_in variable_per_iteration order = Inr hi \<and>
                 Min_in variable_per_iteration order = Inr lo \<and>
                 hi \<in> set order \<and> lo \<in> set order \<and>
                 (\<forall>y\<in>set order. sint lo \<le> sint y \<and> sint y \<le> sint hi)"
  using Max_in_per_iteration [OF assms] Min_in_per_iteration [OF assms] by blast

theorem IntSet_variable_per_iteration_witness:
  "\<exists>hi lo. Max_in variable_per_iteration [2, 1] = Inr hi \<and>
           Min_in variable_per_iteration [2, 1] = Inr lo \<and>
           hi \<in> set [2, 1] \<and> lo \<in> set [2, 1] \<and>
           (\<forall>y\<in>set [2, 1 :: int64]. sint lo \<le> sint y \<and> sint y \<le> sint hi)"
proof -
  have "[2, 1 :: int64] \<noteq> []" by simp
  from IntSet_variable_per_iteration [OF this] show ?thesis .
qed

text \<open>
  C10 (a defect of the code). On the empty set \<open>Max\<close> and \<open>Min\<close> dereference the nil
  pointer, as the claim says. On a non-empty set the claim makes them the maximum and the
  minimum; what they return is the key the runtime visits last: for the set of 1 and 2,
  \<open>Max\<close> is 1 when 2 is visited first, and \<open>Min\<close> is 2 when 1 is visited first.
\<close>

theorem Max_Min_IntSet_last_visited:
  "Max_IntSet [2, 1] = Inr 1 \<and> Min_IntSet [1, 2] = Inr 2 \<and>
   Max_IntSet [1, 2] = Inr 2 \<and> Min_IntSet [2, 1] = Inr 1 \<and>
   Max_IntSet [] = Inl nil_pointer_dereference \<and> Min_IntSet [] = Inl nil_pointer_dereference"
  by (simp add: Max_IntSet_last Min_IntSet_last)

end
